theory Spec2Isabelle
  imports Complex_Main
begin

section \<open>Data model of \<^verbatim>\<open>energy_comparison.py\<close>\<close>

text \<open>
  The script works on pandas objects. A float cell is a \<open>real option\<close>: \<open>None\<close> is NaN,
  arithmetic is exact (the rounding of IEEE doubles is not modelled). A \<open>Series\<close> is the
  list of its (index label, value) pairs in index order. Index labels are the \<open>start_ts\<close>
  values of the statistics table, in whole seconds since the epoch; \<open>pd.to_datetime\<close>
  changes their unit, not their order or their identity, so the labels stay the seconds
  here.
\<close>

type_synonym timestamp = int

text \<open>
  A cell of the \<open>sum\<close> or \<open>state\<close> column as the cursor returns it: SQL NULL, a number,
  or a value that \<open>pd.to_numeric(..., errors='coerce')\<close> cannot read.
\<close>

datatype cell = Null | Num real | NonNumeric

type_synonym row = "timestamp \<times> cell \<times> cell"

text \<open>
  What the two queries of \<open>get_statistics_data\<close> return for the entity and the period:
  \<open>results\<close> is the query on \<open>start_ts\<close>, \<open>results_old\<close> the alternative query on
  \<open>created_ts\<close>, which the function runs only when the first one returned no row.
\<close>

record query_results =
  results :: "row list"
  results_old :: "row list"

datatype error = ValueError

type_synonym series = "(timestamp \<times> real) list"

section \<open>\<open>get_statistics_data\<close>\<close>

definition notna :: "cell \<Rightarrow> bool" where
  "notna c = (c \<noteq> Null)"

fun to_numeric :: "cell \<Rightarrow> real option" where
  "to_numeric (Num x) = Some x"
| "to_numeric Null = None"
| "to_numeric NonNumeric = None"

fun nan_sub :: "real option \<Rightarrow> real option \<Rightarrow> real option" where
  "nan_sub (Some a) (Some b) = Some (a - b)"
| "nan_sub _ _ = None"

text \<open>\<open>Series.diff()\<close>: NaN at the first position, then each value minus its predecessor.\<close>

definition diff :: "real option list \<Rightarrow> real option list" where
  "diff xs = (case xs of [] \<Rightarrow> []
              | _ # rest \<Rightarrow> None # map2 (\<lambda>prev cur. nan_sub cur prev) xs rest)"

text \<open>
  \<open>hourly_consumption[hourly_consumption < 0] = 0\<close>: NaN compares false and stays NaN.
\<close>

fun clamp_negative :: "real option \<Rightarrow> real option" where
  "clamp_negative (Some x) = (if x < 0 then Some 0 else Some x)"
| "clamp_negative None = None"

fun dropna :: "(timestamp \<times> real option) list \<Rightarrow> series" where
  "dropna [] = []"
| "dropna ((t, None) # xs) = dropna xs"
| "dropna ((t, Some v) # xs) = (t, v) # dropna xs"

text \<open>
  The body of \<open>get_statistics_data\<close> after the rows are in the DataFrame.
  \<open>df.sort_values('timestamp')\<close> is \<open>sort_key fst\<close>; pandas does not promise the order of
  rows with equal timestamps, so the theorems that depend on the order of the values
  take the timestamps strictly ascending.
  \<open>hourly_consumption.iloc[0] = df['sum'].iloc[0]\<close> overwrites the first difference;
  the frame has a row there, since the function has raised on an empty result before.
\<close>

definition hourly_consumption :: "row list \<Rightarrow> real option list" where
  "hourly_consumption df =
     (let sum_col = map (\<lambda>r. fst (snd r)) df;
          state_col = map (\<lambda>r. snd (snd r)) df
      in if list_ex notna sum_col
         then (let s = map to_numeric sum_col
               in case s of [] \<Rightarrow> [] | first # _ \<Rightarrow> first # tl (diff s))
         else map to_numeric state_col)"

definition get_statistics_data :: "query_results \<Rightarrow> error + series" where
  "get_statistics_data q =
     (let res = (if results q = [] then results_old q else results q)
      in if res = [] then Inl ValueError
         else (let df = sort_key fst res
               in Inr (dropna (zip (map fst df) (map clamp_negative (hourly_consumption df))))))"

section \<open>Configuration\<close>

text \<open>
  The user-defined variables at the top of the script. The computations below take them
  as a value, so that they can be evaluated for other tariffs than the one in the file.
\<close>

record config =
  FIXED_IMPORT_PRICE :: real
  FIXED_EXPORT_PRICE :: real
  BASE_FIXED_MONTHLY :: real
  BASE_DYNAMIC_MONTHLY :: real
  BASE_DYNAMIC_KWH :: real
  num_months :: int

definition user_config :: config where
  "user_config =
     \<lparr>FIXED_IMPORT_PRICE = 2500 / 10000, FIXED_EXPORT_PRICE = 1000 / 10000,
      BASE_FIXED_MONTHLY = 15, BASE_DYNAMIC_MONTHLY = 1701 / 100,
      BASE_DYNAMIC_KWH = 1492 / 10000, num_months = 12\<rparr>"

section \<open>Fixed tariff\<close>

text \<open>\<open>Series.sum()\<close> of a series without NaN (the normalizer has dropped them).\<close>

definition series_sum :: "series \<Rightarrow> real" where
  "series_sum s = sum_list (map snd s)"

definition total_import_kwh :: "series \<Rightarrow> real" where
  "total_import_kwh import_hourly = series_sum import_hourly"

definition total_export_kwh :: "series \<Rightarrow> real" where
  "total_export_kwh export_hourly = series_sum export_hourly"

definition fixed_import_cost :: "config \<Rightarrow> series \<Rightarrow> real" where
  "fixed_import_cost cfg import_hourly = total_import_kwh import_hourly * FIXED_IMPORT_PRICE cfg"

definition fixed_export_credit :: "config \<Rightarrow> series \<Rightarrow> real" where
  "fixed_export_credit cfg export_hourly = total_export_kwh export_hourly * FIXED_EXPORT_PRICE cfg"

definition fixed_base_cost :: "config \<Rightarrow> real" where
  "fixed_base_cost cfg = BASE_FIXED_MONTHLY cfg * of_int (num_months cfg)"

definition total_fixed_cost :: "config \<Rightarrow> series \<Rightarrow> series \<Rightarrow> real" where
  "total_fixed_cost cfg import_hourly export_hourly =
     fixed_import_cost cfg import_hourly - fixed_export_credit cfg export_hourly + fixed_base_cost cfg"

section \<open>Alignment with the prices\<close>

text \<open>
  \<open>pd.DataFrame({'import_kwh': import_hourly, 'export_kwh': export_hourly})\<close> builds the
  frame on the sorted union of the two indexes and fills a column with NaN at the labels
  its series does not have (both series come from \<open>get_statistics_data\<close>, so each index
  is ascending already). The model is that of series with unique labels (pandas reindexes
  here, which it does only for unique labels); the theorems on the cells of the frame
  take the labels distinct.
\<close>

definition union_index :: "series \<Rightarrow> series \<Rightarrow> timestamp list" where
  "union_index a b = sort (remdups (map fst a @ map fst b))"

definition consumption_df :: "series \<Rightarrow> series \<Rightarrow> (timestamp \<times> real option \<times> real option) list" where
  "consumption_df import_hourly export_hourly =
     map (\<lambda>t. (t, map_of import_hourly t, map_of export_hourly t))
       (union_index import_hourly export_hourly)"

text \<open>A row of \<open>combined\<close>: the index label and the three joined columns.\<close>

record aligned_hour =
  hour :: timestamp
  import_kwh :: "real option"
  export_kwh :: "real option"
  price_eur_kwh :: real

text \<open>
  \<open>consumption_df.join(entsoe_prices.rename('price_eur_kwh'), how='inner')\<close>: the rows of
  the left frame whose label the price series has, in the order of the left frame.
\<close>

fun join_inner :: "(timestamp \<times> real option \<times> real option) list \<Rightarrow> series \<Rightarrow> aligned_hour list" where
  "join_inner [] prices = []"
| "join_inner ((t, i, e) # df) prices =
     (case map_of prices t of
        None \<Rightarrow> join_inner df prices
      | Some p \<Rightarrow> \<lparr>hour = t, import_kwh = i, export_kwh = e, price_eur_kwh = p\<rparr>
                   # join_inner df prices)"

definition combined :: "series \<Rightarrow> series \<Rightarrow> series \<Rightarrow> aligned_hour list" where
  "combined import_hourly export_hourly entsoe_prices =
     join_inner (consumption_df import_hourly export_hourly) entsoe_prices"

section \<open>Dynamic tariff\<close>

fun nan_mul :: "real option \<Rightarrow> real \<Rightarrow> real option" where
  "nan_mul (Some a) k = Some (a * k)"
| "nan_mul None k = None"

text \<open>\<open>Series.sum()\<close> with its default \<open>skipna=True\<close>: NaN cells are left out.\<close>

fun nansum :: "real option list \<Rightarrow> real" where
  "nansum [] = 0"
| "nansum (None # xs) = nansum xs"
| "nansum (Some x # xs) = x + nansum xs"

definition dynamic_price_total :: "config \<Rightarrow> aligned_hour \<Rightarrow> real" where
  "dynamic_price_total cfg r = price_eur_kwh r + BASE_DYNAMIC_KWH cfg"

definition hourly_import_cost :: "config \<Rightarrow> aligned_hour \<Rightarrow> real option" where
  "hourly_import_cost cfg r = nan_mul (import_kwh r) (dynamic_price_total cfg r)"

definition hourly_export_credit :: "config \<Rightarrow> aligned_hour \<Rightarrow> real option" where
  "hourly_export_credit cfg r = nan_mul (export_kwh r) (FIXED_EXPORT_PRICE cfg)"

definition dynamic_import_cost :: "config \<Rightarrow> aligned_hour list \<Rightarrow> real" where
  "dynamic_import_cost cfg cmb = nansum (map (hourly_import_cost cfg) cmb)"

definition dynamic_export_credit :: "config \<Rightarrow> aligned_hour list \<Rightarrow> real" where
  "dynamic_export_credit cfg cmb = nansum (map (hourly_export_credit cfg) cmb)"

definition dynamic_base_cost :: "config \<Rightarrow> real" where
  "dynamic_base_cost cfg = BASE_DYNAMIC_MONTHLY cfg * of_int (num_months cfg)"

definition total_dynamic_cost :: "config \<Rightarrow> aligned_hour list \<Rightarrow> real" where
  "total_dynamic_cost cfg cmb =
     dynamic_import_cost cfg cmb - dynamic_export_credit cfg cmb + dynamic_base_cost cfg"

definition weighted_avg_price :: "config \<Rightarrow> aligned_hour list \<Rightarrow> real" where
  "weighted_avg_price cfg cmb =
     (if nansum (map import_kwh cmb) > 0
      then nansum (map (hourly_import_cost cfg) cmb) / nansum (map import_kwh cmb)
      else 0)"

section \<open>Comparison and statistics\<close>

definition savings :: "config \<Rightarrow> series \<Rightarrow> series \<Rightarrow> aligned_hour list \<Rightarrow> real" where
  "savings cfg import_hourly export_hourly cmb =
     total_fixed_cost cfg import_hourly export_hourly - total_dynamic_cost cfg cmb"

definition savings_pct :: "config \<Rightarrow> series \<Rightarrow> series \<Rightarrow> aligned_hour list \<Rightarrow> real" where
  "savings_pct cfg import_hourly export_hourly cmb =
     (if total_fixed_cost cfg import_hourly export_hourly > 0
      then savings cfg import_hourly export_hourly cmb
           / total_fixed_cost cfg import_hourly export_hourly * 100
      else 0)"

text \<open>
  \<open>min()\<close>, \<open>max()\<close>, \<open>mean()\<close> and \<open>std()\<close> of a series of numbers; NaN (\<open>None\<close>) where
  pandas returns NaN: on the empty series, and for \<open>std()\<close>, which divides by \<open>n - 1\<close>,
  on a series of one value.
\<close>

definition series_min :: "real list \<Rightarrow> real option" where
  "series_min xs = (case xs of [] \<Rightarrow> None | x # rest \<Rightarrow> Some (fold min rest x))"

definition series_max :: "real list \<Rightarrow> real option" where
  "series_max xs = (case xs of [] \<Rightarrow> None | x # rest \<Rightarrow> Some (fold max rest x))"

definition series_mean :: "real list \<Rightarrow> real option" where
  "series_mean xs = (if xs = [] then None else Some (sum_list xs / of_nat (length xs)))"

definition series_std :: "real list \<Rightarrow> real option" where
  "series_std xs =
     (if length xs < 2 then None
      else (let m = sum_list xs / of_nat (length xs)
            in Some (sqrt (sum_list (map (\<lambda>x. (x - m)\<^sup>2) xs) / of_nat (length xs - 1)))))"

text \<open>
  The figures the script prints, from the two normalized series and the price series
  that \<open>fetch_entsoe_prices\<close> returned (the download itself is outside the model).
\<close>

record report =
  rep_total_import_kwh :: real
  rep_total_export_kwh :: real
  rep_total_fixed_cost :: real
  rep_combined :: "aligned_hour list"
  rep_dynamic_import_cost :: real
  rep_dynamic_export_credit :: real
  rep_total_dynamic_cost :: real
  rep_weighted_avg_price :: real
  rep_savings :: real
  rep_savings_pct :: real
  rep_hours_analyzed :: nat
  rep_avg_price :: "real option"
  rep_best_price :: "real option"
  rep_worst_price :: "real option"
  rep_volatility :: "real option"

definition tariff_comparison :: "config \<Rightarrow> series \<Rightarrow> series \<Rightarrow> series \<Rightarrow> report" where
  "tariff_comparison cfg import_hourly export_hourly entsoe_prices =
     (let cmb = combined import_hourly export_hourly entsoe_prices
      in \<lparr>rep_total_import_kwh = total_import_kwh import_hourly,
          rep_total_export_kwh = total_export_kwh export_hourly,
          rep_total_fixed_cost = total_fixed_cost cfg import_hourly export_hourly,
          rep_combined = cmb,
          rep_dynamic_import_cost = dynamic_import_cost cfg cmb,
          rep_dynamic_export_credit = dynamic_export_credit cfg cmb,
          rep_total_dynamic_cost = total_dynamic_cost cfg cmb,
          rep_weighted_avg_price = weighted_avg_price cfg cmb,
          rep_savings = savings cfg import_hourly export_hourly cmb,
          rep_savings_pct = savings_pct cfg import_hourly export_hourly cmb,
          rep_hours_analyzed = length cmb,
          rep_avg_price = series_mean (map snd entsoe_prices),
          rep_best_price = series_min (map snd entsoe_prices),
          rep_worst_price = series_max (map snd entsoe_prices),
          rep_volatility = series_std (map snd entsoe_prices)\<rparr>)"

text \<open>
  The \<open>try\<close> block of the script: both series are read first, then the prices are
  fetched, then the tariffs are computed. An exception of \<open>get_statistics_data\<close> or of
  \<open>fetch_entsoe_prices\<close> ends the run (\<open>Inl\<close>) before anything is computed.
  \<open>fetched\<close> is the outcome of \<open>fetch_entsoe_prices\<close>: the \<open>ValueError\<close> it raises (on an
  empty download or on any failure of the client), or the hourly series it returns.
\<close>

definition run :: "config \<Rightarrow> query_results \<Rightarrow> query_results \<Rightarrow> error + series \<Rightarrow> error + report" where
  "run cfg import_q export_q fetched =
     (case get_statistics_data import_q of
        Inl e \<Rightarrow> Inl e
      | Inr import_hourly \<Rightarrow>
          (case get_statistics_data export_q of
             Inl e \<Rightarrow> Inl e
           | Inr export_hourly \<Rightarrow>
               (case fetched of
                  Inl e \<Rightarrow> Inl e
                | Inr entsoe_prices \<Rightarrow>
                    Inr (tariff_comparison cfg import_hourly export_hourly entsoe_prices))))"

section \<open>Properties of \<open>get_statistics_data\<close>\<close>

lemma length_diff: "length (diff xs) = length xs"
  by (cases xs) (simp_all add: diff_def)

lemma length_hourly_consumption: "length (hourly_consumption df) = length df"
proof (cases df)
  case Nil
  then show ?thesis by (simp add: hourly_consumption_def diff_def)
next
  case (Cons r rs)
  have "length (tl (diff (map to_numeric (map (\<lambda>r. fst (snd r)) (r # rs))))) = length rs"
    by (simp add: length_diff)
  with Cons show ?thesis by (simp add: hourly_consumption_def Let_def)
qed

lemma keys_dropna: "map fst (dropna xs) = map fst (filter (\<lambda>p. snd p \<noteq> None) xs)"
  by (induction xs rule: dropna.induct) simp_all

lemma dropna_all_present: "dropna (zip ts (map Some vs)) = zip ts vs"
proof (induction ts arbitrary: vs)
  case Nil
  then show ?case by simp
next
  case (Cons t ts)
  then show ?case by (cases vs) simp_all
qed

lemma values_dropna_nonneg:
  "(t, v) \<in> set (dropna (zip ts (map clamp_negative hs))) \<Longrightarrow> 0 \<le> v"
proof (induction ts arbitrary: hs)
  case Nil
  then show ?case by simp
next
  case (Cons a ts)
  show ?case
  proof (cases hs)
    case Nil
    with Cons.prems show ?thesis by simp
  next
    case (Cons h hs')
    with Cons.prems Cons.IH [of hs'] show ?thesis
      by (cases h) (auto split: if_splits)
  qed
qed

lemma keys_get_statistics_data:
  assumes "get_statistics_data q = Inr out"
  shows "map fst out =
         map fst (filter (\<lambda>p. snd p \<noteq> None)
           (zip (map fst (sort_key fst (if results q = [] then results_old q else results q)))
                (map clamp_negative (hourly_consumption (sort_key fst (if results q = [] then results_old q else results q))))))"
  using assms by (auto simp: get_statistics_data_def Let_def keys_dropna split: if_splits)

lemma sorted_keys_filter_zip:
  assumes "sorted ts" "length hs = length ts"
  shows "sorted (map fst (filter P (zip ts hs)))"
proof -
  have "sorted (map fst (zip ts hs))" using assms by simp
  then show ?thesis by (rule sorted_filter)
qed

lemma distinct_keys_filter_zip:
  assumes "distinct ts" "length hs = length ts"
  shows "distinct (map fst (filter P (zip ts hs)))"
proof -
  have "distinct (map fst (zip ts hs))" using assms by simp
  then show ?thesis by (rule distinct_map_filter)
qed

lemma set_keys_filter_zip: "set (map fst (filter P (zip ts hs))) \<subseteq> set ts"
  by (auto dest: set_zip_leftD)

lemma hourly_consumption_cumulative:
  assumes "list_ex notna (map (\<lambda>r. fst (snd r)) df)"
  shows "hourly_consumption df =
         (case map (\<lambda>r. to_numeric (fst (snd r))) df of [] \<Rightarrow> []
          | first # rest \<Rightarrow> first # map2 (\<lambda>prev cur. nan_sub cur prev) (first # rest) rest)"
  using assms by (cases df) (simp_all add: hourly_consumption_def diff_def Let_def comp_def)

lemma hourly_consumption_numeric:
  assumes "map (\<lambda>r. fst (snd r)) df = map Num (v # vs)"
  shows "hourly_consumption df = Some v # map2 (\<lambda>prev cur. Some (cur - prev)) (v # vs) vs"
proof -
  have ex: "list_ex notna (map (\<lambda>r. fst (snd r)) df)"
    unfolding assms by (simp add: notna_def)
  have "map (\<lambda>r. to_numeric (fst (snd r))) df = map to_numeric (map (\<lambda>r. fst (snd r)) df)"
    by simp
  also have "\<dots> = Some v # map Some vs"
    unfolding assms by simp
  finally have s: "map (\<lambda>r. to_numeric (fst (snd r))) df = Some v # map Some vs" .
  have "map2 (\<lambda>prev cur. nan_sub cur prev) (map Some (v # vs)) (map Some vs)
        = map2 (\<lambda>prev cur. Some (cur - prev)) (v # vs) vs"
    by (auto simp: zip_map_map simp del: list.map)
  then show ?thesis
    unfolding hourly_consumption_cumulative [OF ex] s by simp
qed

lemma clamp_negative_Some: "clamp_negative (Some x) = Some (max 0 x)"
  by (simp add: max_def)

lemma deltas_nonneg:
  assumes "get_statistics_data q = Inr out" "(t, x) \<in> set out"
  shows "0 \<le> x"
  using assms
  by (auto simp: get_statistics_data_def Let_def split: if_splits dest: values_dropna_nonneg)

lemma no_data_iff: "isl (get_statistics_data q) \<longleftrightarrow> results q = [] \<and> results_old q = []"
  by (simp add: get_statistics_data_def Let_def)

lemma dropna_all_absent:
  assumes "\<forall>h \<in> set hs. h = None"
  shows "dropna (zip ts hs) = []"
  using assms
proof (induction ts arbitrary: hs)
  case Nil
  then show ?case by simp
next
  case (Cons t ts)
  then show ?case by (cases hs) simp_all
qed

lemma hourly_consumption_all_absent:
  assumes "\<forall>r \<in> set df. to_numeric (fst (snd r)) = None \<and> to_numeric (snd (snd r)) = None"
  shows "\<forall>h \<in> set (hourly_consumption df). h = None"
proof (cases "list_ex notna (map (\<lambda>r. fst (snd r)) df)")
  case False
  then show ?thesis using assms by (simp add: hourly_consumption_def Let_def)
next
  case True
  show ?thesis
  proof (cases df)
    case Nil
    then show ?thesis by (simp add: hourly_consumption_def Let_def)
  next
    case (Cons r rs)
    have "nan_sub (to_numeric (fst (snd b))) a = None" if "b \<in> set rs" for a b
      using that assms Cons by simp
    then have "\<forall>h \<in> set (map2 (\<lambda>prev cur. nan_sub cur prev) (map (\<lambda>r. to_numeric (fst (snd r))) (r # rs))
                    (map (\<lambda>r. to_numeric (fst (snd r))) rs)). h = None"
      by (auto dest!: set_zip_rightD)
    then show ?thesis
      unfolding hourly_consumption_cumulative [OF True] using assms Cons by simp
  qed
qed

text \<open>
  C7, amended. The returned series is sorted ascending by timestamp. Its keys are
  timestamps of the rows as they were stored, none of them truncated or changed, and when
  the rows have distinct timestamps the series has one entry per timestamp at most.
\<close>

theorem C7_sorted_by_stored_timestamp:
  assumes "get_statistics_data q = Inr out"
  shows "sorted (map fst out)
         \<and> set (map fst out) \<subseteq> fst ` set (if results q = [] then results_old q else results q)
         \<and> (distinct (map fst (if results q = [] then results_old q else results q))
              \<longrightarrow> distinct (map fst out))"
proof -
  let ?res = "if results q = [] then results_old q else results q"
  let ?df = "sort_key fst ?res"
  let ?hs = "map clamp_negative (hourly_consumption ?df)"
  have keys: "map fst out = map fst (filter (\<lambda>p. snd p \<noteq> None) (zip (map fst ?df) ?hs))"
    using keys_get_statistics_data [OF assms] by simp
  have len: "length ?hs = length (map fst ?df)"
    by (simp add: length_hourly_consumption)
  have "sorted (map fst ?df)" by simp
  then have s: "sorted (map fst out)"
    unfolding keys using len by (rule sorted_keys_filter_zip)
  have "set (map fst out) \<subseteq> set (map fst ?df)"
    unfolding keys by (rule set_keys_filter_zip)
  then have sub: "set (map fst out) \<subseteq> fst ` set ?res" by simp
  have d: "distinct (map fst out)" if "distinct (map fst ?res)"
  proof -
    have "distinct (map fst ?df)" using that by (simp add: distinct_map)
    then show ?thesis unfolding keys using len by (rule distinct_keys_filter_zip)
  qed
  from s sub d show ?thesis by blast
qed

theorem C7_sorted_by_stored_timestamp_witness:
  "get_statistics_data
     \<lparr>results = [(7200, Num 9, Null), (0, Num 4, Null), (3600, Num 5, Null)], results_old = []\<rparr>
   = Inr [(0, 4), (3600, 1), (7200, 4)]
   \<and> sorted (map fst [(0 :: int, 4 :: real), (3600, 1), (7200, 4)])
   \<and> set (map fst [(0 :: int, 4 :: real), (3600, 1), (7200, 4)]) \<subseteq> {7200, 0, 3600}
   \<and> distinct [7200, 0, 3600 :: int]
   \<and> distinct (map fst [(0 :: int, 4 :: real), (3600, 1), (7200, 4)])"
proof -
  have run: "get_statistics_data
     \<lparr>results = [(7200, Num 9, Null), (0, Num 4, Null), (3600, Num 5, Null)], results_old = []\<rparr>
   = Inr [(0, 4), (3600, 1), (7200, 4)]"
    by (simp add: get_statistics_data_def hourly_consumption_def diff_def notna_def)
  show ?thesis
    using run C7_sorted_by_stored_timestamp [OF run] by simp
qed

theorem C7_counterexample:
  "get_statistics_data
     \<lparr>results = [(0, Num 1, Null), (1800, Num 3, Null)], results_old = []\<rparr>
   = Inr [(0, 1), (1800, 2)]
   \<and> (1800 :: int) mod 3600 \<noteq> 0
   \<and> (0 :: int) div 3600 = 1800 div 3600"
  by (simp add: get_statistics_data_def hourly_consumption_def diff_def notna_def)

lemma set_dropna: "(t, x) \<in> set (dropna xs) \<longleftrightarrow> (t, Some x) \<in> set xs"
  by (induction xs rule: dropna.induct) auto

lemma hourly_consumption_nth:
  assumes mode: "list_ex notna (map (\<lambda>r. fst (snd r)) df)" and j: "j < length df"
  shows "hourly_consumption df ! j =
         (if j = 0 then to_numeric (fst (snd (df ! 0)))
          else nan_sub (to_numeric (fst (snd (df ! j)))) (to_numeric (fst (snd (df ! (j - 1))))))"
proof (cases df)
  case Nil
  with j show ?thesis by simp
next
  case (Cons r rs)
  let ?s = "map (\<lambda>r. to_numeric (fst (snd r)))"
  have hc: "hourly_consumption df = to_numeric (fst (snd r)) # map2 (\<lambda>prev cur. nan_sub cur prev) (?s (r # rs)) (?s rs)"
    using hourly_consumption_cumulative [OF mode] Cons by simp
  show ?thesis
  proof (cases j)
    case 0
    then show ?thesis using hc Cons by simp
  next
    case (Suc m)
    with j Cons have m: "m < length rs" by simp
    then have "map2 (\<lambda>prev cur. nan_sub cur prev) (?s (r # rs)) (?s rs) ! m
               = nan_sub (?s rs ! m) (?s (r # rs) ! m)"
      by simp
    also have "\<dots> = nan_sub (to_numeric (fst (snd (df ! Suc m)))) (to_numeric (fst (snd (df ! m))))"
      using m Cons by (cases m) simp_all
    finally show ?thesis using hc Suc by simp
  qed
qed

section \<open>The rows that \<open>get_statistics_data\<close> works on\<close>

text \<open>
  The lemmas below are about the rows that the function has in its DataFrame: those of the
  first query, or those of the alternative query when the first one returned none.
\<close>

lemma rows_of_returned_series:
  assumes "res = (if results q = [] then results_old q else results q)"
    and "get_statistics_data q = Inr out"
  shows "res \<noteq> []"
    and "out = dropna (zip (map fst (sort_key fst res))
                 (map clamp_negative (hourly_consumption (sort_key fst res))))"
  using assms by (auto simp: get_statistics_data_def Let_def split: if_splits)

lemma returned_series_of_rows:
  assumes "res = (if results q = [] then results_old q else results q)"
    and "res \<noteq> []"
  shows "get_statistics_data q
         = Inr (dropna (zip (map fst (sort_key fst res))
                  (map clamp_negative (hourly_consumption (sort_key fst res)))))"
  using assms by (simp add: get_statistics_data_def Let_def)

lemma sort_key_ascending:
  assumes "sorted_wrt (<) (map fst res)"
  shows "sort_key fst res = res"
proof -
  have "sorted (map fst res)" using assms by (rule strict_sorted_imp_sorted)
  then show ?thesis by (rule sort_key_id_if_sorted)
qed

lemma deltas_of_numeric_rows:
  assumes res: "res = (if results q = [] then results_old q else results q)"
    and ts: "map fst res = ts"
    and sums: "map (\<lambda>r. fst (snd r)) res = map Num (v # vs)"
    and asc: "sorted_wrt (<) ts"
  shows "get_statistics_data q =
         Inr (zip ts (max 0 v # map2 (\<lambda>prev cur. max 0 (cur - prev)) (v # vs) vs))"
proof -
  have ne: "res \<noteq> []" using sums by auto
  have srt: "sort_key fst res = res" using asc ts by (simp add: sort_key_ascending)
  have "map clamp_negative (hourly_consumption res)
        = map Some (max 0 v # map2 (\<lambda>prev cur. max 0 (cur - prev)) (v # vs) vs)"
    unfolding hourly_consumption_numeric [OF sums]
    by (simp add: clamp_negative_Some map_zip_map2 comp_def case_prod_beta del: clamp_negative.simps)
  then have "dropna (zip ts (map clamp_negative (hourly_consumption res)))
             = zip ts (max 0 v # map2 (\<lambda>prev cur. max 0 (cur - prev)) (v # vs) vs)"
    by (simp only: dropna_all_present)
  then show ?thesis
    using returned_series_of_rows [OF res ne] srt ts by simp
qed

lemma unusable_rows_give_empty:
  assumes res: "res = (if results q = [] then results_old q else results q)"
    and ne: "res \<noteq> []"
    and un: "\<forall>r \<in> set res. to_numeric (fst (snd r)) = None \<and> to_numeric (snd (snd r)) = None"
  shows "get_statistics_data q = Inr []"
proof -
  let ?df = "sort_key fst res"
  have "\<forall>r \<in> set ?df. to_numeric (fst (snd r)) = None \<and> to_numeric (snd (snd r)) = None"
    using un by simp
  then have "\<forall>h \<in> set (hourly_consumption ?df). h = None"
    by (rule hourly_consumption_all_absent)
  then have "\<forall>h \<in> set (map clamp_negative (hourly_consumption ?df)). h = None"
    by auto
  then have "dropna (zip (map fst ?df) (map clamp_negative (hourly_consumption ?df))) = []"
    by (rule dropna_all_absent)
  then show ?thesis using returned_series_of_rows [OF res ne] by simp
qed

lemma entry_of_get_statistics_data:
  assumes res: "res = (if results q = [] then results_old q else results q)"
    and asc: "sorted_wrt (<) (map fst res)"
    and out: "get_statistics_data q = Inr out"
  shows "(t, x) \<in> set out \<longleftrightarrow>
         (\<exists>j < length res. t = fst (res ! j)
            \<and> clamp_negative (hourly_consumption res ! j) = Some x)"
proof -
  let ?hs = "map clamp_negative (hourly_consumption res)"
  have srt: "sort_key fst res = res" using asc by (rule sort_key_ascending)
  have o: "out = dropna (zip (map fst res) ?hs)"
    using rows_of_returned_series(2) [OF res out] srt by simp
  have "(t, x) \<in> set out \<longleftrightarrow> (t, Some x) \<in> set (zip (map fst res) ?hs)"
    unfolding o by (rule set_dropna)
  also have "\<dots> \<longleftrightarrow> (\<exists>n. map fst res ! n = t \<and> ?hs ! n = Some x
                          \<and> n < length (map fst res) \<and> n < length ?hs)"
    by (simp add: in_set_zip)
  also have "\<dots> \<longleftrightarrow> (\<exists>j < length res. t = fst (res ! j)
                          \<and> clamp_negative (hourly_consumption res ! j) = Some x)"
  proof
    assume "\<exists>n. map fst res ! n = t \<and> ?hs ! n = Some x
              \<and> n < length (map fst res) \<and> n < length ?hs"
    then obtain n where "map fst res ! n = t" "?hs ! n = Some x" "n < length res" by auto
    then have "t = fst (res ! n)" "clamp_negative (hourly_consumption res ! n) = Some x"
      by (simp_all add: length_hourly_consumption)
    with \<open>n < length res\<close> show "\<exists>j < length res. t = fst (res ! j)
        \<and> clamp_negative (hourly_consumption res ! j) = Some x" by blast
  next
    assume "\<exists>j < length res. t = fst (res ! j)
        \<and> clamp_negative (hourly_consumption res ! j) = Some x"
    then obtain j where j: "j < length res" "t = fst (res ! j)"
      "clamp_negative (hourly_consumption res ! j) = Some x" by blast
    then have "map fst res ! j = t" "?hs ! j = Some x"
      by (simp_all add: length_hourly_consumption)
    with j(1) have "map fst res ! j = t \<and> ?hs ! j = Some x
              \<and> j < length (map fst res) \<and> j < length ?hs"
      by (simp add: length_hourly_consumption)
    then show "\<exists>n. map fst res ! n = t \<and> ?hs ! n = Some x
              \<and> n < length (map fst res) \<and> n < length ?hs" ..
  qed
  finally show ?thesis .
qed

lemma clamped_delta_at:
  assumes mode: "list_ex notna (map (\<lambda>r. fst (snd r)) res)" and j: "j < length res"
  shows "clamp_negative (hourly_consumption res ! j) = Some x \<longleftrightarrow>
         (\<exists>a. to_numeric (fst (snd (res ! j))) = Some a
            \<and> (if j = 0 then x = max 0 a
                else \<exists>b. to_numeric (fst (snd (res ! (j - 1)))) = Some b \<and> x = max 0 (a - b)))"
proof (cases "j = 0")
  case True
  then have "hourly_consumption res ! j = to_numeric (fst (snd (res ! j)))"
    using hourly_consumption_nth [OF mode j] by simp
  then show ?thesis
    using True
    by (cases "to_numeric (fst (snd (res ! j)))")
       (auto simp: clamp_negative_Some simp del: clamp_negative.simps(1))
next
  case False
  then have "hourly_consumption res ! j
             = nan_sub (to_numeric (fst (snd (res ! j)))) (to_numeric (fst (snd (res ! (j - 1)))))"
    using hourly_consumption_nth [OF mode j] by simp
  then show ?thesis
    using False
    by (cases "to_numeric (fst (snd (res ! j)))"; cases "to_numeric (fst (snd (res ! (j - 1))))")
       (auto simp: clamp_negative_Some simp del: clamp_negative.simps(1))
qed

lemma keys_strictly_ascending:
  assumes res: "res = (if results q = [] then results_old q else results q)"
    and asc: "sorted_wrt (<) (map fst res)"
    and out: "get_statistics_data q = Inr out"
  shows "sorted_wrt (<) (map fst out)"
proof -
  let ?hs = "map clamp_negative (hourly_consumption res)"
  have srt: "sort_key fst res = res" using asc by (rule sort_key_ascending)
  have "out = dropna (zip (map fst res) ?hs)"
    using rows_of_returned_series(2) [OF res out] srt by simp
  then have keys: "map fst out = map fst (filter (\<lambda>p. snd p \<noteq> None) (zip (map fst res) ?hs))"
    by (simp add: keys_dropna)
  have len: "length ?hs = length (map fst res)" by (simp add: length_hourly_consumption)
  have "sorted (map fst res)" "distinct (map fst res)"
    using asc by (simp_all add: strict_sorted_iff)
  then have "sorted (map fst out)" "distinct (map fst out)"
    unfolding keys using len
    by (auto intro: sorted_keys_filter_zip distinct_keys_filter_zip)
  then show ?thesis by (simp add: strict_sorted_iff)
qed

text \<open>
  C6, amended. Take the rows that the function reads (from either query), in strictly
  ascending timestamp order, some of them with a value in \<open>sum\<close>. The returned series has
  strictly ascending keys and holds exactly these entries: for the first row, if its
  cumulative value is a number, that value; for a later row, if its cumulative value and
  that of the row just before it are both numbers, their difference; each replaced by 0
  when negative. A row whose value is absent, and the row after it, have no entry. So
  when every row carries a number the deltas are the first value and the successive
  differences, clamped at 0: the samples 100, 110, 125 give 100, 10, 15 and the samples
  50, 80, 20, 45 give 50, 30, 0, 25. Whatever the rows are, no returned delta is negative.
\<close>

theorem C6_deltas_between_present_neighbours:
  "(res = (if results q = [] then results_old q else results q)
      \<and> sorted_wrt (<) (map fst res)
      \<and> list_ex notna (map (\<lambda>r. fst (snd r)) res)
      \<and> get_statistics_data q = Inr out
      \<longrightarrow> sorted_wrt (<) (map fst out)
        \<and> (\<forall>t x. (t, x) \<in> set out \<longleftrightarrow>
             (\<exists>j < length res. t = fst (res ! j)
                \<and> (\<exists>a. to_numeric (fst (snd (res ! j))) = Some a
                     \<and> (if j = 0 then x = max 0 a
                         else \<exists>b. to_numeric (fst (snd (res ! (j - 1)))) = Some b
                                  \<and> x = max 0 (a - b))))))
   \<and> (res2 = (if results q2 = [] then results_old q2 else results q2)
      \<and> map fst res2 = ts \<and> map (\<lambda>r. fst (snd r)) res2 = map Num (v # vs)
      \<and> sorted_wrt (<) ts
      \<longrightarrow> get_statistics_data q2
          = Inr (zip ts (max 0 v # map2 (\<lambda>prev cur. max 0 (cur - prev)) (v # vs) vs)))
   \<and> (res2 = (if results q2 = [] then results_old q2 else results q2)
      \<and> map fst res2 = ts \<and> map (\<lambda>r. fst (snd r)) res2 = map Num (v # vs)
      \<and> sorted_wrt (<) ts \<and> 0 \<le> v
      \<longrightarrow> get_statistics_data q2
          = Inr (zip ts (v # map2 (\<lambda>prev cur. max 0 (cur - prev)) (v # vs) vs)))
   \<and> (get_statistics_data q3 = Inr out3 \<and> (t3, x3) \<in> set out3 \<longrightarrow> 0 \<le> x3)
   \<and> get_statistics_data
        \<lparr>results = [(0, Num 100, Null), (3600, Num 110, Null), (7200, Num 125, Null)],
         results_old = []\<rparr>
       = Inr [(0, 100), (3600, 10), (7200, 15)]
   \<and> get_statistics_data
        \<lparr>results = [(0, Num 50, Null), (3600, Num 80, Null), (7200, Num 20, Null),
                    (10800, Num 45, Null)],
         results_old = []\<rparr>
       = Inr [(0, 50), (3600, 30), (7200, 0), (10800, 25)]"
proof (intro conjI impI allI)
  assume h: "res = (if results q = [] then results_old q else results q)
      \<and> sorted_wrt (<) (map fst res)
      \<and> list_ex notna (map (\<lambda>r. fst (snd r)) res)
      \<and> get_statistics_data q = Inr out"
  then have res: "res = (if results q = [] then results_old q else results q)"
    and asc: "sorted_wrt (<) (map fst res)"
    and mode: "list_ex notna (map (\<lambda>r. fst (snd r)) res)"
    and out: "get_statistics_data q = Inr out"
    by blast+
  show "sorted_wrt (<) (map fst out)"
    using res asc out by (rule keys_strictly_ascending)
  fix t x
  show "(t, x) \<in> set out \<longleftrightarrow>
        (\<exists>j < length res. t = fst (res ! j)
           \<and> (\<exists>a. to_numeric (fst (snd (res ! j))) = Some a
                \<and> (if j = 0 then x = max 0 a
                    else \<exists>b. to_numeric (fst (snd (res ! (j - 1)))) = Some b
                             \<and> x = max 0 (a - b))))"
    unfolding entry_of_get_statistics_data [OF res asc out]
    using clamped_delta_at [OF mode] by blast
next
  assume "res2 = (if results q2 = [] then results_old q2 else results q2)
      \<and> map fst res2 = ts \<and> map (\<lambda>r. fst (snd r)) res2 = map Num (v # vs)
      \<and> sorted_wrt (<) ts"
  then have "res2 = (if results q2 = [] then results_old q2 else results q2)"
    and "map fst res2 = ts" and "map (\<lambda>r. fst (snd r)) res2 = map Num (v # vs)"
    and "sorted_wrt (<) ts"
    by blast+
  then show "get_statistics_data q2
             = Inr (zip ts (max 0 v # map2 (\<lambda>prev cur. max 0 (cur - prev)) (v # vs) vs))"
    by (rule deltas_of_numeric_rows)
next
  assume "res2 = (if results q2 = [] then results_old q2 else results q2)
      \<and> map fst res2 = ts \<and> map (\<lambda>r. fst (snd r)) res2 = map Num (v # vs)
      \<and> sorted_wrt (<) ts \<and> 0 \<le> v"
  then have r: "res2 = (if results q2 = [] then results_old q2 else results q2)"
    "map fst res2 = ts" "map (\<lambda>r. fst (snd r)) res2 = map Num (v # vs)"
    "sorted_wrt (<) ts" and nonneg: "0 \<le> v"
    by blast+
  from r have "get_statistics_data q2
             = Inr (zip ts (max 0 v # map2 (\<lambda>prev cur. max 0 (cur - prev)) (v # vs) vs))"
    by (rule deltas_of_numeric_rows)
  moreover have "max 0 v = v" using nonneg by simp
  ultimately show "get_statistics_data q2
             = Inr (zip ts (v # map2 (\<lambda>prev cur. max 0 (cur - prev)) (v # vs) vs))"
    by (simp only:)
next
  assume "get_statistics_data q3 = Inr out3 \<and> (t3, x3) \<in> set out3"
  then show "0 \<le> x3" using deltas_nonneg [of q3 out3 t3 x3] by simp
next
  show "get_statistics_data
          \<lparr>results = [(0, Num 100, Null), (3600, Num 110, Null), (7200, Num 125, Null)],
           results_old = []\<rparr>
        = Inr [(0, 100), (3600, 10), (7200, 15)]"
    by (simp add: get_statistics_data_def hourly_consumption_def diff_def notna_def)
next
  show "get_statistics_data
          \<lparr>results = [(0, Num 50, Null), (3600, Num 80, Null), (7200, Num 20, Null),
                      (10800, Num 45, Null)],
           results_old = []\<rparr>
        = Inr [(0, 50), (3600, 30), (7200, 0), (10800, 25)]"
    by (simp add: get_statistics_data_def hourly_consumption_def diff_def notna_def)
qed

theorem C6_deltas_between_present_neighbours_witness:
  "[(0, Num 10, Null), (3600, NonNumeric, Null), (7200, Num 25, Null), (10800, Num 40, Null)]
     = (if results \<lparr>results = [], results_old = [(0, Num 10, Null), (3600, NonNumeric, Null),
                                                 (7200, Num 25, Null), (10800, Num 40, Null)]\<rparr> = []
        then results_old \<lparr>results = [], results_old = [(0, Num 10, Null), (3600, NonNumeric, Null),
                                                 (7200, Num 25, Null), (10800, Num 40, Null)]\<rparr>
        else results \<lparr>results = [], results_old = [(0, Num 10, Null), (3600, NonNumeric, Null),
                                                 (7200, Num 25, Null), (10800, Num 40, Null)]\<rparr>)
   \<and> sorted_wrt (<) [0, 3600, 7200, 10800 :: int]
   \<and> list_ex notna [Num 10, NonNumeric, Num 25, Num 40]
   \<and> get_statistics_data
        \<lparr>results = [], results_old = [(0, Num 10, Null), (3600, NonNumeric, Null),
                                      (7200, Num 25, Null), (10800, Num 40, Null)]\<rparr>
       = Inr [(0, 10), (10800, 15)]
   \<and> sorted_wrt (<) (map fst [(0 :: int, 10 :: real), (10800, 15)])
   \<and> (3600 :: int, 0 :: real) \<notin> set [(0, 10), (10800, 15)]
   \<and> (7200 :: int, 15 :: real) \<notin> set [(0, 10), (10800, 15)]
   \<and> [(0, Num 50, NonNumeric), (3600, Num 80, Null), (7200, Num 20, Null)]
       = (if results \<lparr>results = [], results_old = [(0, Num 50, NonNumeric), (3600, Num 80, Null),
                                                   (7200, Num 20, Null)]\<rparr> = []
          then results_old \<lparr>results = [], results_old = [(0, Num 50, NonNumeric), (3600, Num 80, Null),
                                                   (7200, Num 20, Null)]\<rparr>
          else results \<lparr>results = [], results_old = [(0, Num 50, NonNumeric), (3600, Num 80, Null),
                                                   (7200, Num 20, Null)]\<rparr>)
   \<and> map fst [(0 :: int, Num 50, NonNumeric), (3600, Num 80, Null), (7200, Num 20, Null)]
       = [0, 3600, 7200]
   \<and> map (\<lambda>r. fst (snd r)) [(0 :: int, Num 50, NonNumeric), (3600, Num 80, Null), (7200, Num 20, Null)]
       = map Num [50, 80, 20]
   \<and> (0 :: real) \<le> 50
   \<and> get_statistics_data
        \<lparr>results = [], results_old = [(0, Num 50, NonNumeric), (3600, Num 80, Null),
                                      (7200, Num 20, Null)]\<rparr>
       = Inr [(0, 50), (3600, 30), (7200, 0)]
   \<and> (10800, 15) \<in> set [(0 :: int, 10 :: real), (10800, 15)]
   \<and> (0 :: real) \<le> 15"
proof -
  let ?qa = "\<lparr>results = [], results_old = [(0, Num 10, Null), (3600, NonNumeric, Null),
                                           (7200, Num 25, Null), (10800, Num 40, Null)]\<rparr>"
  let ?qb = "\<lparr>results = [], results_old = [(0, Num 50, NonNumeric), (3600, Num 80, Null),
                                           (7200, Num 20, Null)]\<rparr>"
  have run: "get_statistics_data ?qa = Inr [(0, 10), (10800, 15)]"
    by (simp add: get_statistics_data_def hourly_consumption_def diff_def notna_def)
  show ?thesis
    using run C6_deltas_between_present_neighbours
      [of "[(0, Num 10, Null), (3600, NonNumeric, Null), (7200, Num 25, Null), (10800, Num 40, Null)]"
          ?qa "[(0, 10), (10800, 15)]"
          "[(0, Num 50, NonNumeric), (3600, Num 80, Null), (7200, Num 20, Null)]"
          ?qb "[0, 3600, 7200]" 50 "[80, 20]"
          ?qa "[(0, 10), (10800, 15)]" 10800 15]
    by (simp add: notna_def)
qed

theorem C6_counterexample:
  "get_statistics_data
     \<lparr>results = [(0, Null, Null), (3600, Num 10, Null), (7200, Num 25, Null)], results_old = []\<rparr>
   = Inr [(7200, 15)]"
  by (simp add: get_statistics_data_def hourly_consumption_def diff_def notna_def)

text \<open>
  C3, amended. The function raises exactly when both queries returned no row. When rows
  came back, from the first query or from the alternative one, and none of them has a
  number in \<open>sum\<close> or in \<open>state\<close>, it returns the empty series and raises nothing.
\<close>

theorem C3_raises_only_without_rows:
  "(isl (get_statistics_data q) \<longleftrightarrow> results q = [] \<and> results_old q = [])
   \<and> (res = (if results q = [] then results_old q else results q) \<and> res \<noteq> []
        \<and> (\<forall>r \<in> set res. to_numeric (fst (snd r)) = None \<and> to_numeric (snd (snd r)) = None)
       \<longrightarrow> get_statistics_data q = Inr [])"
  using no_data_iff [of q] unusable_rows_give_empty [of res q] by blast

theorem C3_raises_only_without_rows_witness:
  "\<not> isl (get_statistics_data \<lparr>results = [], results_old = [(0, NonNumeric, Null), (3600, Null, NonNumeric)]\<rparr>)
   \<and> [(0, NonNumeric, Null), (3600, Null, NonNumeric)]
       = (if results \<lparr>results = [], results_old = [(0, NonNumeric, Null), (3600, Null, NonNumeric)]\<rparr> = []
          then results_old \<lparr>results = [], results_old = [(0, NonNumeric, Null), (3600, Null, NonNumeric)]\<rparr>
          else results \<lparr>results = [], results_old = [(0, NonNumeric, Null), (3600, Null, NonNumeric)]\<rparr>)
   \<and> [(0 :: int, NonNumeric, Null), (3600, Null, NonNumeric)] \<noteq> []
   \<and> to_numeric NonNumeric = None \<and> to_numeric Null = None
   \<and> get_statistics_data \<lparr>results = [], results_old = [(0, NonNumeric, Null), (3600, Null, NonNumeric)]\<rparr>
       = Inr []"
  using C3_raises_only_without_rows
    [of "\<lparr>results = [], results_old = [(0, NonNumeric, Null), (3600, Null, NonNumeric)]\<rparr>"
        "[(0, NonNumeric, Null), (3600, Null, NonNumeric)]"]
  by simp

theorem C3_counterexample:
  "get_statistics_data \<lparr>results = [(0, Null, Null), (3600, Null, NonNumeric)], results_old = []\<rparr>
   = Inr []"
  by (simp add: get_statistics_data_def hourly_consumption_def notna_def)

text \<open>
  C10. In cumulative mode (some row has a value in \<open>sum\<close>), on the rows that the function
  reads (from either query), with strictly ascending timestamps: a row whose \<open>sum\<close> is
  absent or not a number has no entry in the returned series, and neither has the row
  after it. Every returned delta is the clamped difference of two adjacent rows (or the
  clamped first value), so no delta spans the gap and what the counter gained across it
  is in no entry.
\<close>

theorem C10_absent_sample_drops_next_hour:
  assumes res: "res = (if results q = [] then results_old q else results q)"
    and asc: "sorted_wrt (<) (map fst res)"
    and mode: "list_ex notna (map (\<lambda>r. fst (snd r)) res)"
    and i: "i < length res"
    and absent: "to_numeric (fst (snd (res ! i))) = None"
    and out: "get_statistics_data q = Inr out"
  shows "fst (res ! i) \<notin> fst ` set out
         \<and> (Suc i < length res \<longrightarrow> fst (res ! Suc i) \<notin> fst ` set out)
         \<and> (\<forall>(t, x) \<in> set out. \<exists>j < length res. t = fst (res ! j)
               \<and> (\<exists>a. to_numeric (fst (snd (res ! j))) = Some a
                    \<and> (if j = 0 then x = max 0 a
                        else \<exists>b. to_numeric (fst (snd (res ! (j - 1)))) = Some b
                                 \<and> x = max 0 (a - b))))"
proof -
  let ?s = "\<lambda>k. to_numeric (fst (snd (res ! k)))"
  have dist: "distinct (map fst res)" using asc by (simp add: strict_sorted_iff)
  have entry: "\<exists>j < length res. t = fst (res ! j)
                 \<and> (\<exists>a. ?s j = Some a
                      \<and> (if j = 0 then x = max 0 a
                          else \<exists>b. ?s (j - 1) = Some b \<and> x = max 0 (a - b)))"
    if "(t, x) \<in> set out" for t x
    using that entry_of_get_statistics_data [OF res asc out, of t x] clamped_delta_at [OF mode]
    by blast
  have key: "k = j" if "k < length res" "j < length res" "fst (res ! k) = fst (res ! j)" for k j
  proof -
    have eq: "map fst res ! k = map fst res ! j" using that by simp
    have "k < length (map fst res)" "j < length (map fst res)" using that by simp_all
    from nth_eq_iff_index_eq [OF dist this] eq show ?thesis by blast
  qed
  have gone: "fst (res ! k) \<notin> fst ` set out"
    if k: "k < length res" and none: "?s k = None \<or> (k \<noteq> 0 \<and> ?s (k - 1) = None)" for k
  proof
    assume "fst (res ! k) \<in> fst ` set out"
    then obtain x where "(fst (res ! k), x) \<in> set out" by force
    from entry [OF this] obtain j a where j: "j < length res" "fst (res ! k) = fst (res ! j)"
      "?s j = Some a" "if j = 0 then x = max 0 a else \<exists>b. ?s (j - 1) = Some b \<and> x = max 0 (a - b)"
      by blast
    from key [OF k j(1) j(2)] have "k = j" .
    with j(3,4) none show False by (cases "j = 0") auto
  qed
  have own: "fst (res ! i) \<notin> fst ` set out"
    using gone [OF i] absent by simp
  have nxt: "fst (res ! Suc i) \<notin> fst ` set out" if "Suc i < length res"
    using gone [OF that] absent by simp
  from own nxt entry show ?thesis by blast
qed

theorem C10_absent_sample_drops_next_hour_witness:
  "[(0, Num 10, Null), (3600, Null, Null), (7200, Num 30, Null), (10800, Num 45, Null)]
     = (if results \<lparr>results = [], results_old = [(0, Num 10, Null), (3600, Null, Null),
                                                 (7200, Num 30, Null), (10800, Num 45, Null)]\<rparr> = []
        then results_old \<lparr>results = [], results_old = [(0, Num 10, Null), (3600, Null, Null),
                                                 (7200, Num 30, Null), (10800, Num 45, Null)]\<rparr>
        else results \<lparr>results = [], results_old = [(0, Num 10, Null), (3600, Null, Null),
                                                 (7200, Num 30, Null), (10800, Num 45, Null)]\<rparr>)
   \<and> sorted_wrt (<) [0, 3600, 7200, 10800 :: int]
   \<and> list_ex notna [Num 10, Null, Num 30, Num 45]
   \<and> (1 :: nat) < 4
   \<and> to_numeric Null = None
   \<and> get_statistics_data
        \<lparr>results = [], results_old = [(0, Num 10, Null), (3600, Null, Null),
                                      (7200, Num 30, Null), (10800, Num 45, Null)]\<rparr>
       = Inr [(0, 10), (10800, 15)]
   \<and> (3600 :: int) \<notin> fst ` set [(0 :: int, 10 :: real), (10800, 15)]
   \<and> (7200 :: int) \<notin> fst ` set [(0 :: int, 10 :: real), (10800, 15)]
   \<and> series_sum [(0, 10), (10800, 15)] = 25"
proof -
  let ?rows = "[(0 :: int, Num 10, Null), (3600, Null, Null), (7200, Num 30, Null), (10800, Num 45, Null)]"
  let ?q = "\<lparr>results = [], results_old = ?rows\<rparr>"
  have res: "?rows = (if results ?q = [] then results_old ?q else results ?q)" by simp
  have run: "get_statistics_data ?q = Inr [(0, 10), (10800, 15)]"
    by (simp add: get_statistics_data_def hourly_consumption_def diff_def notna_def)
  have asc: "sorted_wrt (<) (map fst ?rows)" by simp
  have mode: "list_ex notna (map (\<lambda>r. fst (snd r)) ?rows)" by (simp add: notna_def)
  have i: "1 < length ?rows" by simp
  have absent: "to_numeric (fst (snd (?rows ! 1))) = None" by simp
  show ?thesis
    using run C10_absent_sample_drops_next_hour [OF res asc mode i absent run]
    by (simp add: notna_def series_sum_def)
qed

section \<open>Properties of the alignment\<close>

lemma set_union_index: "set (union_index a b) = fst ` set a \<union> fst ` set b"
  by (simp add: union_index_def)

lemma distinct_union_index: "distinct (union_index a b)"
  by (simp add: union_index_def)

lemma sorted_union_index: "sorted (union_index a b)"
  by (simp add: union_index_def)

lemma hours_join_inner_lookup:
  "map hour (join_inner df prices) = filter (\<lambda>t. map_of prices t \<noteq> None) (map fst df)"
proof (induction df prices rule: join_inner.induct)
  case (1 prices)
  then show ?case by simp
next
  case (2 t i e df prices)
  then show ?case by (cases "map_of prices t") simp_all
qed

lemma hours_join_inner:
  "map hour (join_inner df prices) = filter (\<lambda>t. t \<in> fst ` set prices) (map fst df)"
  unfolding hours_join_inner_lookup by (simp add: map_of_eq_None_iff)

lemma hours_combined:
  "map hour (combined import_hourly export_hourly entsoe_prices)
   = filter (\<lambda>t. t \<in> fst ` set entsoe_prices) (union_index import_hourly export_hourly)"
  by (simp add: combined_def consumption_df_def hours_join_inner comp_def)

lemma rows_join_inner:
  assumes "r \<in> set (join_inner (map (\<lambda>t. (t, f t, g t)) idx) prices)"
  shows "import_kwh r = f (hour r) \<and> export_kwh r = g (hour r)
         \<and> map_of prices (hour r) = Some (price_eur_kwh r)"
  using assms
proof (induction idx)
  case Nil
  then show ?case by simp
next
  case (Cons t idx)
  then show ?case by (cases "map_of prices t") auto
qed

lemma rows_combined:
  assumes "r \<in> set (combined import_hourly export_hourly entsoe_prices)"
  shows "import_kwh r = map_of import_hourly (hour r)
         \<and> export_kwh r = map_of export_hourly (hour r)
         \<and> map_of entsoe_prices (hour r) = Some (price_eur_kwh r)"
  using assms unfolding combined_def consumption_df_def by (rule rows_join_inner)

lemma nansum_import_join_inner_lookup:
  "nansum (map import_kwh (join_inner (map (\<lambda>t. (t, f t, g t)) idx) prices))
   = sum_list (map (\<lambda>t. case f t of None \<Rightarrow> 0 | Some v \<Rightarrow> v)
       (filter (\<lambda>t. map_of prices t \<noteq> None) idx))"
proof (induction idx)
  case Nil
  then show ?case by simp
next
  case (Cons t idx)
  then show ?case by (cases "map_of prices t"; cases "f t") simp_all
qed

lemma nansum_import_join_inner:
  "nansum (map import_kwh (join_inner (map (\<lambda>t. (t, f t, g t)) idx) prices))
   = sum_list (map (\<lambda>t. case f t of None \<Rightarrow> 0 | Some v \<Rightarrow> v)
       (filter (\<lambda>t. t \<in> fst ` set prices) idx))"
  unfolding nansum_import_join_inner_lookup by (simp add: map_of_eq_None_iff)

lemma nansum_export_join_inner_lookup:
  "nansum (map export_kwh (join_inner (map (\<lambda>t. (t, f t, g t)) idx) prices))
   = sum_list (map (\<lambda>t. case g t of None \<Rightarrow> 0 | Some v \<Rightarrow> v)
       (filter (\<lambda>t. map_of prices t \<noteq> None) idx))"
proof (induction idx)
  case Nil
  then show ?case by simp
next
  case (Cons t idx)
  then show ?case by (cases "map_of prices t"; cases "g t") simp_all
qed

lemma nansum_export_join_inner:
  "nansum (map export_kwh (join_inner (map (\<lambda>t. (t, f t, g t)) idx) prices))
   = sum_list (map (\<lambda>t. case g t of None \<Rightarrow> 0 | Some v \<Rightarrow> v)
       (filter (\<lambda>t. t \<in> fst ` set prices) idx))"
  unfolding nansum_export_join_inner_lookup by (simp add: map_of_eq_None_iff)

lemma series_sum_as_lookup:
  fixes s :: series
  assumes "distinct (map fst s)"
  shows "series_sum s = (\<Sum>t \<in> fst ` set s. case map_of s t of None \<Rightarrow> 0 | Some v \<Rightarrow> v)"
proof -
  let ?h = "\<lambda>t. case map_of s t of None \<Rightarrow> 0 | Some v \<Rightarrow> v"
  have "\<forall>x \<in> set s. snd x = ?h (fst x)" using assms by auto
  then have "map snd s = map (\<lambda>x. ?h (fst x)) s" by simp
  then have "sum_list (map snd s) = sum_list (map (\<lambda>x. ?h (fst x)) s)"
    by (rule arg_cong)
  also have "map (\<lambda>x. ?h (fst x)) s = map ?h (map fst s)"
    by (simp add: comp_def)
  also have "sum_list (map ?h (map fst s)) = sum ?h (set (map fst s))"
    using assms by (rule sum_list_distinct_conv_sum_set)
  finally show ?thesis by (simp add: series_sum_def)
qed

lemma lookup_sum_over_priced_index:
  fixes s prices :: series
  assumes sub: "fst ` set s \<subseteq> K" "fst ` set s \<subseteq> fst ` set prices"
    and idx: "set idx = K" "distinct idx"
  shows "sum_list (map (\<lambda>t. case map_of s t of None \<Rightarrow> 0 | Some v \<Rightarrow> v)
           (filter (\<lambda>t. t \<in> fst ` set prices) idx))
         = (\<Sum>t \<in> fst ` set s. case map_of s t of None \<Rightarrow> 0 | Some v \<Rightarrow> v)"
proof -
  let ?h = "\<lambda>t. case map_of s t of None \<Rightarrow> 0 | Some v \<Rightarrow> v"
  let ?ix = "filter (\<lambda>t. t \<in> fst ` set prices) idx"
  have "distinct ?ix" using idx(2) by simp
  then have "sum_list (map ?h ?ix) = sum ?h (set ?ix)"
    by (rule sum_list_distinct_conv_sum_set)
  also have "sum ?h (set ?ix) = sum ?h (fst ` set s)"
  proof (rule sum.mono_neutral_right)
    show "finite (set ?ix)" by simp
    show "fst ` set s \<subseteq> set ?ix" using sub idx(1) by auto
    show "\<forall>t \<in> set ?ix - fst ` set s. ?h t = 0"
      by (auto simp: map_of_eq_None_iff [symmetric])
  qed
  finally show ?thesis .
qed

lemma aligned_import_total:
  assumes "distinct (map fst import_hourly)"
    and "fst ` set import_hourly \<subseteq> fst ` set entsoe_prices"
  shows "nansum (map import_kwh (combined import_hourly export_hourly entsoe_prices))
         = total_import_kwh import_hourly"
proof -
  have "nansum (map import_kwh (combined import_hourly export_hourly entsoe_prices))
        = sum_list (map (\<lambda>t. case map_of import_hourly t of None \<Rightarrow> 0 | Some v \<Rightarrow> v)
            (filter (\<lambda>t. t \<in> fst ` set entsoe_prices) (union_index import_hourly export_hourly)))"
    unfolding combined_def consumption_df_def by (rule nansum_import_join_inner)
  also have "\<dots> = (\<Sum>t \<in> fst ` set import_hourly. case map_of import_hourly t of None \<Rightarrow> 0 | Some v \<Rightarrow> v)"
    by (rule lookup_sum_over_priced_index [OF _ assms(2) set_union_index distinct_union_index]) simp
  also have "\<dots> = series_sum import_hourly"
    using series_sum_as_lookup [OF assms(1)] by simp
  finally show ?thesis by (simp add: total_import_kwh_def)
qed

lemma aligned_export_total:
  assumes "distinct (map fst export_hourly)"
    and "fst ` set export_hourly \<subseteq> fst ` set entsoe_prices"
  shows "nansum (map export_kwh (combined import_hourly export_hourly entsoe_prices))
         = total_export_kwh export_hourly"
proof -
  have "nansum (map export_kwh (combined import_hourly export_hourly entsoe_prices))
        = sum_list (map (\<lambda>t. case map_of export_hourly t of None \<Rightarrow> 0 | Some v \<Rightarrow> v)
            (filter (\<lambda>t. t \<in> fst ` set entsoe_prices) (union_index import_hourly export_hourly)))"
    unfolding combined_def consumption_df_def by (rule nansum_export_join_inner)
  also have "\<dots> = (\<Sum>t \<in> fst ` set export_hourly. case map_of export_hourly t of None \<Rightarrow> 0 | Some v \<Rightarrow> v)"
    by (rule lookup_sum_over_priced_index [OF _ assms(2) set_union_index distinct_union_index]) simp
  also have "\<dots> = series_sum export_hourly"
    using series_sum_as_lookup [OF assms(1)] by simp
  finally show ?thesis by (simp add: total_export_kwh_def)
qed

lemma nansum_as_sum_list:
  "nansum (map f xs) = sum_list (map (\<lambda>x. case f x of None \<Rightarrow> 0 | Some v \<Rightarrow> v) xs)"
proof (induction xs)
  case Nil
  then show ?case by simp
next
  case (Cons x xs)
  then show ?case by (cases "f x") simp_all
qed


lemma combined_empty:
  assumes "(fst ` set import_hourly \<union> fst ` set export_hourly) \<inter> fst ` set entsoe_prices = {}"
  shows "combined import_hourly export_hourly entsoe_prices = []"
proof -
  have "filter (\<lambda>t. t \<in> fst ` set entsoe_prices) (union_index import_hourly export_hourly) = []"
    using assms by (auto simp: filter_empty_conv set_union_index)
  then have "map hour (combined import_hourly export_hourly entsoe_prices) = []"
    by (simp only: hours_combined)
  then show ?thesis by simp
qed

lemma series_min_Min: "xs \<noteq> [] \<Longrightarrow> series_min xs = Some (Min (set xs))"
  by (cases xs) (simp_all add: series_min_def Min.set_eq_fold del: set_simps)

lemma series_max_Max: "xs \<noteq> [] \<Longrightarrow> series_max xs = Some (Max (set xs))"
  by (cases xs) (simp_all add: series_max_def Max.set_eq_fold del: set_simps)

text \<open>
  C1, amended. The hours of \<open>combined\<close> are exactly the hours that the price series has
  and that the import series or the export series has; they are ascending and without
  repetition. A row carries the import and the export value of its hour where the series
  has one and NaN where it has not, and the price of its hour. An hour without a price
  gives no row.
\<close>

theorem C1_hours_with_price_and_consumption:
  assumes "distinct (map fst import_hourly)" "distinct (map fst export_hourly)"
    and "distinct (map fst entsoe_prices)"
  shows "set (map hour (combined import_hourly export_hourly entsoe_prices))
           = (fst ` set import_hourly \<union> fst ` set export_hourly) \<inter> fst ` set entsoe_prices
         \<and> sorted (map hour (combined import_hourly export_hourly entsoe_prices))
         \<and> distinct (map hour (combined import_hourly export_hourly entsoe_prices))
         \<and> (\<forall>r \<in> set (combined import_hourly export_hourly entsoe_prices).
               import_kwh r = map_of import_hourly (hour r)
               \<and> export_kwh r = map_of export_hourly (hour r)
               \<and> map_of entsoe_prices (hour r) = Some (price_eur_kwh r))"
proof (intro conjI ballI)
  show "set (map hour (combined import_hourly export_hourly entsoe_prices))
        = (fst ` set import_hourly \<union> fst ` set export_hourly) \<inter> fst ` set entsoe_prices"
    unfolding hours_combined by (auto simp: set_union_index)
  show "sorted (map hour (combined import_hourly export_hourly entsoe_prices))"
    unfolding hours_combined by (rule sorted_wrt_filter) (rule sorted_union_index)
  show "distinct (map hour (combined import_hourly export_hourly entsoe_prices))"
    unfolding hours_combined by (simp add: distinct_union_index)
next
  fix r
  assume r: "r \<in> set (combined import_hourly export_hourly entsoe_prices)"
  from rows_combined [OF r]
  show "import_kwh r = map_of import_hourly (hour r)"
    and "export_kwh r = map_of export_hourly (hour r)"
    and "map_of entsoe_prices (hour r) = Some (price_eur_kwh r)"
    by simp_all
qed

theorem C1_hours_with_price_and_consumption_witness:
  "distinct (map fst [(0 :: int, 1 :: real), (3600, 2), (7200, 4)])
   \<and> distinct (map fst [(0 :: int, 1 / 2 :: real), (10800, 3)])
   \<and> distinct (map fst [(0 :: int, 1 / 10 :: real), (3600, 1 / 5), (10800, 3 / 10)])
   \<and> set (map hour (combined [(0, 1), (3600, 2), (7200, 4)] [(0, 1 / 2), (10800, 3)]
                       [(0, 1 / 10), (3600, 1 / 5), (10800, 3 / 10)]))
       = {0, 3600, 10800}
   \<and> combined [(0, 1), (3600, 2), (7200, 4)] [(0, 1 / 2), (10800, 3)]
               [(0, 1 / 10), (3600, 1 / 5), (10800, 3 / 10)]
       = [\<lparr>hour = 0, import_kwh = Some 1, export_kwh = Some (1 / 2), price_eur_kwh = 1 / 10\<rparr>,
          \<lparr>hour = 3600, import_kwh = Some 2, export_kwh = None, price_eur_kwh = 1 / 5\<rparr>,
          \<lparr>hour = 10800, import_kwh = None, export_kwh = Some 3, price_eur_kwh = 3 / 10\<rparr>]"
proof -
  have c: "combined [(0, 1), (3600, 2), (7200, 4)] [(0, 1 / 2), (10800, 3)]
               [(0, 1 / 10), (3600, 1 / 5), (10800, 3 / 10)]
       = [\<lparr>hour = 0, import_kwh = Some 1, export_kwh = Some (1 / 2), price_eur_kwh = 1 / 10\<rparr>,
          \<lparr>hour = 3600, import_kwh = Some 2, export_kwh = None, price_eur_kwh = 1 / 5\<rparr>,
          \<lparr>hour = 10800, import_kwh = None, export_kwh = Some 3, price_eur_kwh = 3 / 10\<rparr>]"
    by (simp add: combined_def consumption_df_def union_index_def)
  show ?thesis
    using c C1_hours_with_price_and_consumption
      [of "[(0, 1), (3600, 2), (7200, 4)]" "[(0, 1 / 2), (10800, 3)]"
          "[(0, 1 / 10), (3600, 1 / 5), (10800, 3 / 10)]"]
    by auto
qed

theorem C1_counterexample:
  "combined [(0, 1), (3600, 2)] [(0, 1)] [(0, 1 / 10), (3600, 1 / 5)]
     = [\<lparr>hour = 0, import_kwh = Some 1, export_kwh = Some 1, price_eur_kwh = 1 / 10\<rparr>,
        \<lparr>hour = 3600, import_kwh = Some 2, export_kwh = None, price_eur_kwh = 1 / 5\<rparr>]
   \<and> fst ` set [(0 :: int, 1 :: real), (3600, 2)] \<inter> fst ` set [(0 :: int, 1 :: real)]
        \<inter> fst ` set [(0 :: int, 1 / 10 :: real), (3600, 1 / 5)] = {0}
   \<and> dynamic_import_cost user_config
        (combined [(0, 1), (3600, 2)] [(0, 1)] [(0, 1 / 10), (3600, 1 / 5)])
       = 1 * (1 / 10 + 1492 / 10000) + 2 * (1 / 5 + 1492 / 10000)
   \<and> total_import_kwh [(0, 1), (3600, 2)] = 3"
  by (simp add: combined_def consumption_df_def union_index_def dynamic_import_cost_def
      hourly_import_cost_def dynamic_price_total_def user_config_def total_import_kwh_def
      series_sum_def)

text \<open>
  C2, amended. The dynamic tariff is computed from the rows of \<open>combined\<close>; the fixed
  tariff is computed from the two normalized series as a whole, whatever the prices are.
  When every hour of the import series and every hour of the export series has a price,
  the kWh totals of the aligned rows are the totals of the series, and both tariffs are
  then computed on the same kWh.
\<close>

theorem C2_same_kwh_when_every_hour_has_a_price:
  "rep_total_fixed_cost (tariff_comparison cfg import_hourly export_hourly entsoe_prices)
     = series_sum import_hourly * FIXED_IMPORT_PRICE cfg
       - series_sum export_hourly * FIXED_EXPORT_PRICE cfg
       + BASE_FIXED_MONTHLY cfg * of_int (num_months cfg)
   \<and> rep_total_dynamic_cost (tariff_comparison cfg import_hourly export_hourly entsoe_prices)
     = total_dynamic_cost cfg (combined import_hourly export_hourly entsoe_prices)
   \<and> (distinct (map fst import_hourly) \<and> distinct (map fst export_hourly)
        \<and> fst ` set import_hourly \<subseteq> fst ` set entsoe_prices
        \<and> fst ` set export_hourly \<subseteq> fst ` set entsoe_prices
       \<longrightarrow> nansum (map import_kwh
              (rep_combined (tariff_comparison cfg import_hourly export_hourly entsoe_prices)))
             = rep_total_import_kwh (tariff_comparison cfg import_hourly export_hourly entsoe_prices)
           \<and> nansum (map export_kwh
              (rep_combined (tariff_comparison cfg import_hourly export_hourly entsoe_prices)))
             = rep_total_export_kwh (tariff_comparison cfg import_hourly export_hourly entsoe_prices))"
proof (intro conjI impI)
  show "rep_total_fixed_cost (tariff_comparison cfg import_hourly export_hourly entsoe_prices)
        = series_sum import_hourly * FIXED_IMPORT_PRICE cfg
          - series_sum export_hourly * FIXED_EXPORT_PRICE cfg
          + BASE_FIXED_MONTHLY cfg * of_int (num_months cfg)"
    by (simp add: tariff_comparison_def Let_def total_fixed_cost_def fixed_import_cost_def
        fixed_export_credit_def fixed_base_cost_def total_import_kwh_def total_export_kwh_def)
  show "rep_total_dynamic_cost (tariff_comparison cfg import_hourly export_hourly entsoe_prices)
        = total_dynamic_cost cfg (combined import_hourly export_hourly entsoe_prices)"
    by (simp add: tariff_comparison_def Let_def)
next
  assume h: "distinct (map fst import_hourly) \<and> distinct (map fst export_hourly)
        \<and> fst ` set import_hourly \<subseteq> fst ` set entsoe_prices
        \<and> fst ` set export_hourly \<subseteq> fst ` set entsoe_prices"
  then have di: "distinct (map fst import_hourly)"
    and pi: "fst ` set import_hourly \<subseteq> fst ` set entsoe_prices"
    by blast+
  show "nansum (map import_kwh
          (rep_combined (tariff_comparison cfg import_hourly export_hourly entsoe_prices)))
        = rep_total_import_kwh (tariff_comparison cfg import_hourly export_hourly entsoe_prices)"
    using aligned_import_total [OF di pi, of export_hourly]
    by (simp add: tariff_comparison_def Let_def)
next
  assume h: "distinct (map fst import_hourly) \<and> distinct (map fst export_hourly)
        \<and> fst ` set import_hourly \<subseteq> fst ` set entsoe_prices
        \<and> fst ` set export_hourly \<subseteq> fst ` set entsoe_prices"
  then have de: "distinct (map fst export_hourly)"
    and pe: "fst ` set export_hourly \<subseteq> fst ` set entsoe_prices"
    by blast+
  show "nansum (map export_kwh
          (rep_combined (tariff_comparison cfg import_hourly export_hourly entsoe_prices)))
        = rep_total_export_kwh (tariff_comparison cfg import_hourly export_hourly entsoe_prices)"
    using aligned_export_total [OF de pe, of import_hourly]
    by (simp add: tariff_comparison_def Let_def)
qed

theorem C2_same_kwh_when_every_hour_has_a_price_witness:
  "distinct (map fst [(0 :: int, 1 :: real), (3600, 2)])
   \<and> distinct (map fst [(3600 :: int, 1 / 2 :: real)])
   \<and> fst ` set [(0 :: int, 1 :: real), (3600, 2)]
        \<subseteq> fst ` set [(0 :: int, 1 / 10 :: real), (3600, 1 / 5), (7200, 3 / 10)]
   \<and> fst ` set [(3600 :: int, 1 / 2 :: real)]
        \<subseteq> fst ` set [(0 :: int, 1 / 10 :: real), (3600, 1 / 5), (7200, 3 / 10)]
   \<and> nansum (map import_kwh (rep_combined (tariff_comparison user_config
        [(0, 1), (3600, 2)] [(3600, 1 / 2)] [(0, 1 / 10), (3600, 1 / 5), (7200, 3 / 10)]))) = 3
   \<and> rep_total_import_kwh (tariff_comparison user_config
        [(0, 1), (3600, 2)] [(3600, 1 / 2)] [(0, 1 / 10), (3600, 1 / 5), (7200, 3 / 10)]) = 3
   \<and> nansum (map export_kwh (rep_combined (tariff_comparison user_config
        [(0, 1), (3600, 2)] [(3600, 1 / 2)] [(0, 1 / 10), (3600, 1 / 5), (7200, 3 / 10)]))) = 1 / 2"
proof -
  have t: "rep_total_import_kwh (tariff_comparison user_config
        [(0, 1), (3600, 2)] [(3600, 1 / 2)] [(0, 1 / 10), (3600, 1 / 5), (7200, 3 / 10)]) = 3"
       "rep_total_export_kwh (tariff_comparison user_config
        [(0, 1), (3600, 2)] [(3600, 1 / 2)] [(0, 1 / 10), (3600, 1 / 5), (7200, 3 / 10)]) = 1 / 2"
    by (simp_all add: tariff_comparison_def Let_def total_import_kwh_def total_export_kwh_def
        series_sum_def)
  show ?thesis
    using t C2_same_kwh_when_every_hour_has_a_price
      [where cfg = user_config and import_hourly = "[(0, 1), (3600, 2)]"
         and export_hourly = "[(3600, 1 / 2)]"
         and entsoe_prices = "[(0, 1 / 10), (3600, 1 / 5), (7200, 3 / 10)]"]
    by simp
qed

theorem C2_counterexample:
  "rep_total_import_kwh (tariff_comparison user_config
      [(0, 1), (3600, 2)] [(0, 1), (3600, 1)] [(0, 1 / 10)]) = 3
   \<and> rep_total_fixed_cost (tariff_comparison user_config
      [(0, 1), (3600, 2)] [(0, 1), (3600, 1)] [(0, 1 / 10)]) = 3 * (1 / 4) - 2 * (1 / 10) + 180
   \<and> map hour (rep_combined (tariff_comparison user_config
      [(0, 1), (3600, 2)] [(0, 1), (3600, 1)] [(0, 1 / 10)])) = [0]
   \<and> nansum (map import_kwh (rep_combined (tariff_comparison user_config
      [(0, 1), (3600, 2)] [(0, 1), (3600, 1)] [(0, 1 / 10)]))) = 1
   \<and> rep_dynamic_import_cost (tariff_comparison user_config
      [(0, 1), (3600, 2)] [(0, 1), (3600, 1)] [(0, 1 / 10)]) = 1 * (1 / 10 + 1492 / 10000)"
  by (simp add: tariff_comparison_def Let_def total_import_kwh_def series_sum_def
      total_fixed_cost_def fixed_import_cost_def fixed_export_credit_def fixed_base_cost_def
      total_export_kwh_def combined_def consumption_df_def union_index_def
      dynamic_import_cost_def hourly_import_cost_def dynamic_price_total_def user_config_def)

text \<open>
  C4, amended. When no hour of the import or export series has a price, \<open>combined\<close> is
  empty and nothing is raised: the run that read both series returns its report, with the
  dynamic import cost and export credit 0 and the dynamic total equal to the base fee of
  the period, computed from the empty set.
\<close>

theorem C4_empty_alignment_is_not_an_error:
  assumes "get_statistics_data import_q = Inr import_hourly"
    and "get_statistics_data export_q = Inr export_hourly"
    and "(fst ` set import_hourly \<union> fst ` set export_hourly) \<inter> fst ` set entsoe_prices = {}"
  shows "run cfg import_q export_q (Inr entsoe_prices)
           = Inr (tariff_comparison cfg import_hourly export_hourly entsoe_prices)
         \<and> rep_combined (tariff_comparison cfg import_hourly export_hourly entsoe_prices) = []
         \<and> rep_hours_analyzed (tariff_comparison cfg import_hourly export_hourly entsoe_prices) = 0
         \<and> rep_dynamic_import_cost (tariff_comparison cfg import_hourly export_hourly entsoe_prices) = 0
         \<and> rep_dynamic_export_credit (tariff_comparison cfg import_hourly export_hourly entsoe_prices) = 0
         \<and> rep_total_dynamic_cost (tariff_comparison cfg import_hourly export_hourly entsoe_prices)
             = BASE_DYNAMIC_MONTHLY cfg * of_int (num_months cfg)"
proof -
  have e: "combined import_hourly export_hourly entsoe_prices = []"
    using assms(3) by (rule combined_empty)
  have "run cfg import_q export_q (Inr entsoe_prices)
        = Inr (tariff_comparison cfg import_hourly export_hourly entsoe_prices)"
    using assms(1,2) by (simp add: run_def)
  then show ?thesis
    using e
    by (simp add: tariff_comparison_def Let_def dynamic_import_cost_def dynamic_export_credit_def
        total_dynamic_cost_def dynamic_base_cost_def)
qed

theorem C4_empty_alignment_is_not_an_error_witness:
  "get_statistics_data \<lparr>results = [(0, Num 5, Null), (3600, Num 7, Null)], results_old = []\<rparr>
     = Inr [(0, 5), (3600, 2)]
   \<and> get_statistics_data \<lparr>results = [(0, Num 1, Null)], results_old = []\<rparr> = Inr [(0, 1)]
   \<and> (fst ` set [(0 :: int, 5 :: real), (3600, 2)] \<union> fst ` set [(0 :: int, 1 :: real)])
        \<inter> fst ` set [(7200 :: int, 1 / 10 :: real)] = {}
   \<and> run user_config \<lparr>results = [(0, Num 5, Null), (3600, Num 7, Null)], results_old = []\<rparr>
        \<lparr>results = [(0, Num 1, Null)], results_old = []\<rparr> (Inr [(7200, 1 / 10)])
       = Inr (tariff_comparison user_config [(0, 5), (3600, 2)] [(0, 1)] [(7200, 1 / 10)])
   \<and> rep_total_dynamic_cost (tariff_comparison user_config [(0, 5), (3600, 2)] [(0, 1)] [(7200, 1 / 10)])
       = 1701 / 100 * 12"
proof -
  have i: "get_statistics_data \<lparr>results = [(0, Num 5, Null), (3600, Num 7, Null)], results_old = []\<rparr>
     = Inr [(0, 5), (3600, 2)]"
    by (simp add: get_statistics_data_def hourly_consumption_def diff_def notna_def)
  have e: "get_statistics_data \<lparr>results = [(0, Num 1, Null)], results_old = []\<rparr> = Inr [(0, 1)]"
    by (simp add: get_statistics_data_def hourly_consumption_def diff_def notna_def)
  have d: "(fst ` set [(0 :: int, 5 :: real), (3600, 2)] \<union> fst ` set [(0 :: int, 1 :: real)])
        \<inter> fst ` set [(7200 :: int, 1 / 10 :: real)] = {}"
    by simp
  show ?thesis
    using i e d C4_empty_alignment_is_not_an_error [OF i e d, of user_config]
    by (simp add: user_config_def)
qed

theorem C4_counterexample:
  "\<not> isl (run user_config \<lparr>results = [(0, Num 5, Null)], results_old = []\<rparr>
             \<lparr>results = [(3600, Num 1, Null)], results_old = []\<rparr> (Inr [(7200, 1 / 10)]))
   \<and> fst ` set [(0 :: int, 5 :: real)] \<inter> fst ` set [(3600 :: int, 1 :: real)]
        \<inter> fst ` set [(7200 :: int, 1 / 10 :: real)] = {}
   \<and> rep_combined (projr (run user_config \<lparr>results = [(0, Num 5, Null)], results_old = []\<rparr>
             \<lparr>results = [(3600, Num 1, Null)], results_old = []\<rparr> (Inr [(7200, 1 / 10)]))) = []
   \<and> rep_total_dynamic_cost (projr (run user_config \<lparr>results = [(0, Num 5, Null)], results_old = []\<rparr>
             \<lparr>results = [(3600, Num 1, Null)], results_old = []\<rparr> (Inr [(7200, 1 / 10)]))) = 20412 / 100"
  by (simp add: run_def get_statistics_data_def hourly_consumption_def diff_def notna_def
      tariff_comparison_def Let_def combined_def consumption_df_def union_index_def
      total_dynamic_cost_def dynamic_import_cost_def dynamic_export_credit_def
      dynamic_base_cost_def user_config_def)

text \<open>
  C5, amended. The price statistics of the report (minimum, maximum, mean, standard
  deviation) are those of the whole price series that was fetched: they are the same for
  any import and export series, and on a series with a price they are its least and its
  greatest price and the mean of all its prices.
\<close>

theorem C5_statistics_over_all_fetched_prices:
  "rep_best_price (tariff_comparison cfg import_hourly export_hourly entsoe_prices)
     = rep_best_price (tariff_comparison cfg [] [] entsoe_prices)
   \<and> rep_worst_price (tariff_comparison cfg import_hourly export_hourly entsoe_prices)
     = rep_worst_price (tariff_comparison cfg [] [] entsoe_prices)
   \<and> rep_avg_price (tariff_comparison cfg import_hourly export_hourly entsoe_prices)
     = rep_avg_price (tariff_comparison cfg [] [] entsoe_prices)
   \<and> rep_volatility (tariff_comparison cfg import_hourly export_hourly entsoe_prices)
     = series_std (map snd entsoe_prices)
   \<and> (entsoe_prices \<noteq> [] \<longrightarrow>
        rep_best_price (tariff_comparison cfg import_hourly export_hourly entsoe_prices)
          = Some (Min (snd ` set entsoe_prices))
        \<and> rep_worst_price (tariff_comparison cfg import_hourly export_hourly entsoe_prices)
          = Some (Max (snd ` set entsoe_prices))
        \<and> rep_avg_price (tariff_comparison cfg import_hourly export_hourly entsoe_prices)
          = Some (sum_list (map snd entsoe_prices) / of_nat (length entsoe_prices)))"
proof -
  have "series_min (map snd entsoe_prices) = Some (Min (snd ` set entsoe_prices))"
    if "entsoe_prices \<noteq> []"
    using that series_min_Min [of "map snd entsoe_prices"] by simp
  moreover have "series_max (map snd entsoe_prices) = Some (Max (snd ` set entsoe_prices))"
    if "entsoe_prices \<noteq> []"
    using that series_max_Max [of "map snd entsoe_prices"] by simp
  ultimately show ?thesis
    by (simp add: tariff_comparison_def Let_def series_mean_def)
qed

theorem C5_statistics_over_all_fetched_prices_witness:
  "[(0 :: int, 3 / 10 :: real), (3600, 1 / 10)] \<noteq> []
   \<and> rep_best_price (tariff_comparison user_config [(0, 1)] [(0, 1)] [(0, 3 / 10), (3600, 1 / 10)])
       = Some (1 / 10)
   \<and> rep_worst_price (tariff_comparison user_config [(0, 1)] [(0, 1)] [(0, 3 / 10), (3600, 1 / 10)])
       = Some (3 / 10)
   \<and> rep_avg_price (tariff_comparison user_config [(0, 1)] [(0, 1)] [(0, 3 / 10), (3600, 1 / 10)])
       = Some (1 / 5)"
  using C5_statistics_over_all_fetched_prices
    [of user_config "[(0, 1)]" "[(0, 1)]" "[(0, 3 / 10), (3600, 1 / 10)]"]
  by (simp add: tariff_comparison_def Let_def series_min_def series_max_def series_mean_def)

theorem C5_counterexample:
  "rep_best_price (tariff_comparison user_config [(0, 1)] [(0, 1)] [(0, 3 / 10), (3600, 1 / 10)])
     = Some (1 / 10)
   \<and> map price_eur_kwh
        (rep_combined (tariff_comparison user_config [(0, 1)] [(0, 1)] [(0, 3 / 10), (3600, 1 / 10)]))
     = [3 / 10]
   \<and> series_min (map price_eur_kwh
        (rep_combined (tariff_comparison user_config [(0, 1)] [(0, 1)] [(0, 3 / 10), (3600, 1 / 10)])))
     = Some (3 / 10)"
  by (simp add: tariff_comparison_def Let_def series_min_def combined_def consumption_df_def
      union_index_def)

text \<open>
  C8. The dynamic import cost is the sum over the aligned rows of the row's import times
  the row's own price plus the markup; the export credit is the sum of the row's export
  times the constant export price; the total adds the base fee of the period. On the three
  hours of the scenario, with markup 0.05, export price 0.10 and no base fee, the import
  cost is 0.65, the export credit 0.15 and the total 0.50; pricing the 3 kWh at the mean
  price plus the markup would give 0.60 instead.
\<close>

theorem C8_dynamic_price_applied_per_hour:
  "dynamic_import_cost cfg cmb
     = sum_list (map (\<lambda>r. case import_kwh r of None \<Rightarrow> 0
                           | Some kwh \<Rightarrow> kwh * (price_eur_kwh r + BASE_DYNAMIC_KWH cfg)) cmb)
   \<and> dynamic_export_credit cfg cmb
     = sum_list (map (\<lambda>r. case export_kwh r of None \<Rightarrow> 0
                           | Some kwh \<Rightarrow> kwh * FIXED_EXPORT_PRICE cfg) cmb)
   \<and> total_dynamic_cost cfg cmb
     = dynamic_import_cost cfg cmb - dynamic_export_credit cfg cmb
       + BASE_DYNAMIC_MONTHLY cfg * of_int (num_months cfg)
   \<and> rep_dynamic_import_cost
        (tariff_comparison
           \<lparr>FIXED_IMPORT_PRICE = 1 / 4, FIXED_EXPORT_PRICE = 10 / 100, BASE_FIXED_MONTHLY = 0,
            BASE_DYNAMIC_MONTHLY = 0, BASE_DYNAMIC_KWH = 5 / 100, num_months = 12\<rparr>
           [(0, 2), (3600, 1), (7200, 0)] [(0, 0), (3600, 1 / 2), (7200, 1)]
           [(0, 10 / 100), (3600, 30 / 100), (7200, 5 / 100)]) = 65 / 100
   \<and> rep_dynamic_export_credit
        (tariff_comparison
           \<lparr>FIXED_IMPORT_PRICE = 1 / 4, FIXED_EXPORT_PRICE = 10 / 100, BASE_FIXED_MONTHLY = 0,
            BASE_DYNAMIC_MONTHLY = 0, BASE_DYNAMIC_KWH = 5 / 100, num_months = 12\<rparr>
           [(0, 2), (3600, 1), (7200, 0)] [(0, 0), (3600, 1 / 2), (7200, 1)]
           [(0, 10 / 100), (3600, 30 / 100), (7200, 5 / 100)]) = 15 / 100
   \<and> rep_total_dynamic_cost
        (tariff_comparison
           \<lparr>FIXED_IMPORT_PRICE = 1 / 4, FIXED_EXPORT_PRICE = 10 / 100, BASE_FIXED_MONTHLY = 0,
            BASE_DYNAMIC_MONTHLY = 0, BASE_DYNAMIC_KWH = 5 / 100, num_months = 12\<rparr>
           [(0, 2), (3600, 1), (7200, 0)] [(0, 0), (3600, 1 / 2), (7200, 1)]
           [(0, 10 / 100), (3600, 30 / 100), (7200, 5 / 100)]) = 50 / 100
   \<and> total_import_kwh [(0, 2), (3600, 1), (7200, 0)]
       * ((10 / 100 + 30 / 100 + 5 / 100) / 3 + 5 / 100) = 60 / 100"
proof (intro conjI)
  have "(case nan_mul (import_kwh r) k of None \<Rightarrow> 0 | Some v \<Rightarrow> v)
        = (case import_kwh r of None \<Rightarrow> 0 | Some kwh \<Rightarrow> kwh * k)" for r :: aligned_hour and k
    by (cases "import_kwh r") simp_all
  then show "dynamic_import_cost cfg cmb
     = sum_list (map (\<lambda>r. case import_kwh r of None \<Rightarrow> 0
                           | Some kwh \<Rightarrow> kwh * (price_eur_kwh r + BASE_DYNAMIC_KWH cfg)) cmb)"
    by (simp add: dynamic_import_cost_def hourly_import_cost_def dynamic_price_total_def
        nansum_as_sum_list)
  have "(case nan_mul (export_kwh r) k of None \<Rightarrow> 0 | Some v \<Rightarrow> v)
        = (case export_kwh r of None \<Rightarrow> 0 | Some kwh \<Rightarrow> kwh * k)" for r :: aligned_hour and k
    by (cases "export_kwh r") simp_all
  then show "dynamic_export_credit cfg cmb
     = sum_list (map (\<lambda>r. case export_kwh r of None \<Rightarrow> 0
                           | Some kwh \<Rightarrow> kwh * FIXED_EXPORT_PRICE cfg) cmb)"
    by (simp add: dynamic_export_credit_def hourly_export_credit_def nansum_as_sum_list)
  show "total_dynamic_cost cfg cmb
     = dynamic_import_cost cfg cmb - dynamic_export_credit cfg cmb
       + BASE_DYNAMIC_MONTHLY cfg * of_int (num_months cfg)"
    by (simp add: total_dynamic_cost_def dynamic_base_cost_def)
  show "rep_dynamic_import_cost
        (tariff_comparison
           \<lparr>FIXED_IMPORT_PRICE = 1 / 4, FIXED_EXPORT_PRICE = 10 / 100, BASE_FIXED_MONTHLY = 0,
            BASE_DYNAMIC_MONTHLY = 0, BASE_DYNAMIC_KWH = 5 / 100, num_months = 12\<rparr>
           [(0, 2), (3600, 1), (7200, 0)] [(0, 0), (3600, 1 / 2), (7200, 1)]
           [(0, 10 / 100), (3600, 30 / 100), (7200, 5 / 100)]) = 65 / 100"
    by (simp add: tariff_comparison_def Let_def combined_def consumption_df_def union_index_def
        dynamic_import_cost_def hourly_import_cost_def dynamic_price_total_def)
  show "rep_dynamic_export_credit
        (tariff_comparison
           \<lparr>FIXED_IMPORT_PRICE = 1 / 4, FIXED_EXPORT_PRICE = 10 / 100, BASE_FIXED_MONTHLY = 0,
            BASE_DYNAMIC_MONTHLY = 0, BASE_DYNAMIC_KWH = 5 / 100, num_months = 12\<rparr>
           [(0, 2), (3600, 1), (7200, 0)] [(0, 0), (3600, 1 / 2), (7200, 1)]
           [(0, 10 / 100), (3600, 30 / 100), (7200, 5 / 100)]) = 15 / 100"
    by (simp add: tariff_comparison_def Let_def combined_def consumption_df_def union_index_def
        dynamic_export_credit_def hourly_export_credit_def)
  show "rep_total_dynamic_cost
        (tariff_comparison
           \<lparr>FIXED_IMPORT_PRICE = 1 / 4, FIXED_EXPORT_PRICE = 10 / 100, BASE_FIXED_MONTHLY = 0,
            BASE_DYNAMIC_MONTHLY = 0, BASE_DYNAMIC_KWH = 5 / 100, num_months = 12\<rparr>
           [(0, 2), (3600, 1), (7200, 0)] [(0, 0), (3600, 1 / 2), (7200, 1)]
           [(0, 10 / 100), (3600, 30 / 100), (7200, 5 / 100)]) = 50 / 100"
    by (simp add: tariff_comparison_def Let_def combined_def consumption_df_def union_index_def
        total_dynamic_cost_def dynamic_import_cost_def
        hourly_import_cost_def dynamic_price_total_def dynamic_export_credit_def
        hourly_export_credit_def dynamic_base_cost_def)
  show "total_import_kwh [(0, 2), (3600, 1), (7200, 0)]
       * ((10 / 100 + 30 / 100 + 5 / 100) / 3 + 5 / 100) = 60 / 100"
    by (simp add: total_import_kwh_def series_sum_def)
qed

theorem C8_dynamic_price_applied_per_hour_witness:
  "dynamic_import_cost user_config
     [\<lparr>hour = 0, import_kwh = Some 2, export_kwh = None, price_eur_kwh = 1 / 10\<rparr>,
      \<lparr>hour = 3600, import_kwh = None, export_kwh = Some 1, price_eur_kwh = 1 / 5\<rparr>]
     = 2 * (1 / 10 + 1492 / 10000)
   \<and> dynamic_export_credit user_config
     [\<lparr>hour = 0, import_kwh = Some 2, export_kwh = None, price_eur_kwh = 1 / 10\<rparr>,
      \<lparr>hour = 3600, import_kwh = None, export_kwh = Some 1, price_eur_kwh = 1 / 5\<rparr>]
     = 1 * (1 / 10)
   \<and> total_dynamic_cost user_config
     [\<lparr>hour = 0, import_kwh = Some 2, export_kwh = None, price_eur_kwh = 1 / 10\<rparr>,
      \<lparr>hour = 3600, import_kwh = None, export_kwh = Some 1, price_eur_kwh = 1 / 5\<rparr>]
     = 2 * (1 / 10 + 1492 / 10000) - 1 / 10 + 1701 / 100 * 12"
  using C8_dynamic_price_applied_per_hour
    [of user_config
        "[\<lparr>hour = 0, import_kwh = Some 2, export_kwh = None, price_eur_kwh = 1 / 10\<rparr>,
          \<lparr>hour = 3600, import_kwh = None, export_kwh = Some 1, price_eur_kwh = 1 / 5\<rparr>]"]
  by (simp add: user_config_def)





end
